theory Spec2Isabelle
  imports Complex_Main
begin

section \<open>Forest inference: the dispatch layer and the CPU kernel\<close>

text \<open>
  The development embeds two functions of the forest-inference library:
  \<^item> \<open>infer\<close> of \<^verbatim>\<open>detail/infer.hpp\<close>, which picks a compiled specialization of
    \<^verbatim>\<open>inference::infer\<close> from three run-time facts, and
  \<^item> \<open>infer_kernel_cpu\<close> of \<^verbatim>\<open>detail/infer_kernel/cpu.hpp\<close>, which accumulates the
    outputs of all trees on all rows in a workspace, sums over groves and postprocesses.

  Conventions.
  \<^item> \<^verbatim>\<open>index_type\<close> (its header is not among the sources) is modelled by \<open>nat\<close>: the
    index arithmetic is that of the code for sizes whose products fit the index type.
  \<^item> The floating-point type \<^verbatim>\<open>io_type\<close> is modelled by \<open>real\<close>: sums are exact.
  \<^item> A raw pointer to a buffer is a function from offsets to values; pointer
    arithmetic shifts the offset. The pointer that may be \<^verbatim>\<open>nullptr\<close> is an option.
  \<^item> A division by zero, a failed allocation of the workspace and an access to the
    workspace outside its bounds do not return: they are recorded as a \<open>fault\<close>, and
    nothing is executed after one.
  \<^item> The iterations of the two \<^verbatim>\<open>#pragma omp parallel for\<close> loops are run one after
    the other, in the order of their indices.
  \<^item> Besides the workspace and the output buffer, the state keeps a log of what the
    kernel did, so that claims about single steps can be stated.
\<close>

subsection \<open>The dispatch layer\<close>

type_synonym index_type = nat

type_synonym io_pointer = "nat \<Rightarrow> real"

text \<open>
  Modelled from the spec: the postprocessor (\<^verbatim>\<open>postprocessor.hpp\<close> is not among the
  sources) is a per-row transform from the vector of raw class aggregates to the final
  reported values: \<open>f raw k\<close> is the \<open>k\<close>-th reported value for the aggregates \<open>raw\<close>.
\<close>

type_synonym postprocessor = "real list \<Rightarrow> nat \<Rightarrow> real"

datatype device_type = cpu | gpu

text \<open>
  One call of \<^verbatim>\<open>inference::infer<D, has_categorical_nodes, forest_t, vector_output_t,
  categorical_data_t>\<close> (declared in \<^verbatim>\<open>infer/cpu.hpp\<close> and \<^verbatim>\<open>infer/gpu.hpp\<close>, not among
  the sources): the two explicit template arguments and the twelve arguments passed.
  An argument \<open>None\<close> is the literal \<^verbatim>\<open>nullptr\<close>.
\<close>

datatype ('node, 'cat) inference_call = Inference_infer
  (call_device_type: device_type)
  (call_has_categorical_nodes: bool)
  (call_forest: "'node list")
  (call_postproc: postprocessor)
  (call_output: io_pointer)
  (call_input: io_pointer)
  (call_row_count: index_type)
  (call_col_count: index_type)
  (call_output_count: index_type)
  (call_vector_output: "io_pointer option")
  (call_categorical_data: "'cat option")
  (call_specified_chunk_size: "index_type option")
  (call_device: nat)
  (call_stream: nat)

text \<open>
  The compiled specialization a call selects: \<open>has_categorical_nodes\<close>, and whether
  \<open>vector_output_t\<close> and \<open>categorical_data_t\<close> are pointer types (\<open>True\<close>) or
  \<^verbatim>\<open>std::nullptr_t\<close> (\<open>False\<close>), as deduced from the arguments.
\<close>

definition specialization :: "('node, 'cat) inference_call \<Rightarrow> bool \<times> bool \<times> bool" where
  "specialization c =
     (call_has_categorical_nodes c, call_vector_output c \<noteq> None, call_categorical_data c \<noteq> None)"

text \<open>\<open>infer\<close>: the list of the calls of \<^verbatim>\<open>inference::infer\<close> it makes.\<close>

definition infer ::
  "device_type \<Rightarrow> 'node list \<Rightarrow> postprocessor \<Rightarrow> io_pointer \<Rightarrow> io_pointer \<Rightarrow>
   index_type \<Rightarrow> index_type \<Rightarrow> index_type \<Rightarrow> bool \<Rightarrow> io_pointer option \<Rightarrow> 'cat option \<Rightarrow>
   index_type option \<Rightarrow> nat \<Rightarrow> nat \<Rightarrow> ('node, 'cat) inference_call list" where
  "infer D forest postproc output input row_count col_count output_count
     has_categorical_nodes vector_output categorical_data specified_chunk_size device stream =
   (if vector_output = None then
      (if categorical_data = None then
         (if \<not> has_categorical_nodes then
            [Inference_infer D False forest postproc output input row_count col_count
               output_count None None specified_chunk_size device stream]
          else
            [Inference_infer D True forest postproc output input row_count col_count
               output_count None None specified_chunk_size device stream])
       else
         [Inference_infer D True forest postproc output input row_count col_count
            output_count None categorical_data specified_chunk_size device stream])
    else
      (if categorical_data = None then
         (if \<not> has_categorical_nodes then
            [Inference_infer D False forest postproc output input row_count col_count
               output_count vector_output None specified_chunk_size device stream]
          else
            [Inference_infer D True forest postproc output input row_count col_count
               output_count vector_output None specified_chunk_size device stream])
       else
         [Inference_infer D True forest postproc output input row_count col_count
            output_count vector_output categorical_data specified_chunk_size device stream]))"

subsection \<open>The CPU kernel: data\<close>

datatype fault = Division_by_zero | Bad_alloc | Out_of_bounds

text \<open>
  What the kernel relies on and the sources do not contain: the four instances of
  \<^verbatim>\<open>evaluate_tree\<close> it can call (with a scalar leaf value or the index of a vector leaf
  as result; with the categorical-node flag, or with the non-local categorical
  storage), and whether a workspace of a given number of elements can be allocated.
\<close>

record ('node, 'cat) collaborators =
  evaluate_tree_leaf :: "bool \<Rightarrow> 'node \<Rightarrow> io_pointer \<Rightarrow> real"
  evaluate_tree_leaf_nonlocal :: "'node \<Rightarrow> io_pointer \<Rightarrow> 'cat \<Rightarrow> real"
  evaluate_tree_index :: "bool \<Rightarrow> 'node \<Rightarrow> io_pointer \<Rightarrow> index_type"
  evaluate_tree_index_nonlocal :: "'node \<Rightarrow> io_pointer \<Rightarrow> 'cat \<Rightarrow> index_type"
  can_allocate :: "nat \<Rightarrow> bool"

text \<open>
  The template argument \<open>has_categorical_nodes\<close> and the arguments of
  \<open>infer_kernel_cpu\<close>. The forest is the list of its tree roots: \<open>tree_count\<close> is its
  length and \<open>get_tree_root i\<close> its \<open>i\<close>-th element.
\<close>

record ('node, 'cat) kernel_call =
  has_categorical_nodes :: bool
  forest :: "'node list"
  postproc :: postprocessor
  "output" :: io_pointer
  input :: io_pointer
  row_count :: index_type
  col_count :: index_type
  num_outputs :: index_type
  chunk_size :: index_type
  grove_size :: index_type
  vector_output_p :: "io_pointer option"
  categorical_data :: "'cat option"

text \<open>One \<^verbatim>\<open>+=\<close> on a workspace cell: the task, row and tree it is made for.\<close>

record accumulation =
  acc_task :: index_type
  acc_row :: index_type
  acc_tree :: index_type
  acc_cell :: index_type
  acc_amount :: real

text \<open>
  One call of the postprocessor: \<open>val\<close> is the workspace from the cell the first
  argument points to, \<open>out\<close> the offset in the output buffer the third points to;
  \<open>output_count_arg\<close> and \<open>stride\<close> are the second and the fourth argument (the
  kernel passes \<open>num_outputs\<close> and \<open>num_grove\<close>).
\<close>

record postproc_call =
  val :: "real list"
  output_count_arg :: index_type
  out :: index_type
  stride :: index_type

text \<open>
  The state the kernel works on: the workspace and the caller's output buffer; the
  fault, if any; and a log of what was done (the calls of \<^verbatim>\<open>evaluate_tree\<close> as pairs
  of row and tree, the accumulations, the calls of the postprocessor).
\<close>

record kernel_state =
  output_workspace :: "real list"
  output_buffer :: io_pointer
  status :: "fault option"
  evaluated :: "(index_type \<times> index_type) list"
  accumulated :: "accumulation list"
  postproc_calls :: "postproc_call list"

subsection \<open>The CPU kernel: operations\<close>


text \<open>\<^verbatim>\<open>p + n\<close> on a pointer.\<close>

definition offset_pointer :: "io_pointer \<Rightarrow> nat \<Rightarrow> io_pointer" where
  "offset_pointer p n = (\<lambda>j. p (n + j))"

text \<open>
  The call of \<^verbatim>\<open>evaluate_tree\<close> of lines 118 to 129, for scalar leaves and for vector
  leaves.
\<close>

definition tree_output_leaf ::
  "('node, 'cat) collaborators \<Rightarrow> ('node, 'cat) kernel_call \<Rightarrow> index_type \<Rightarrow> index_type \<Rightarrow> real" where
  "tree_output_leaf ev a tree_index row_index =
     (case categorical_data a of
        Some cd \<Rightarrow>
          evaluate_tree_leaf_nonlocal ev (forest a ! tree_index)
            (offset_pointer (input a) (row_index * col_count a)) cd
      | None \<Rightarrow>
          evaluate_tree_leaf ev (has_categorical_nodes a) (forest a ! tree_index)
            (offset_pointer (input a) (row_index * col_count a)))"

definition tree_output_index ::
  "('node, 'cat) collaborators \<Rightarrow> ('node, 'cat) kernel_call \<Rightarrow> index_type \<Rightarrow> index_type \<Rightarrow> index_type" where
  "tree_output_index ev a tree_index row_index =
     (case categorical_data a of
        Some cd \<Rightarrow>
          evaluate_tree_index_nonlocal ev (forest a ! tree_index)
            (offset_pointer (input a) (row_index * col_count a)) cd
      | None \<Rightarrow>
          evaluate_tree_index ev (has_categorical_nodes a) (forest a ! tree_index)
            (offset_pointer (input a) (row_index * col_count a)))"









subsection \<open>Closed forms of the loops\<close>

text \<open>
  The definitions of this subsection are not part of the code: they say in closed
  form what its loops do, and the facts below relate them to the loops.

  A state is running when no fault is recorded and the workspace has its size.
\<close>

definition running :: "('node, 'cat) kernel_call \<Rightarrow> nat \<Rightarrow> kernel_state \<Rightarrow> bool" where
  "running a num_grove s \<longleftrightarrow>
     status s = None \<and> length (output_workspace s) = row_count a * num_outputs a * num_grove"

text \<open>
  What a tree adds to a class of a row: the entry of its vector leaf for the class,
  or, with scalar leaves, its leaf value for the class \<open>tree_index mod num_outputs\<close>
  and nothing for the others.
\<close>

definition contribution ::
  "('node, 'cat) collaborators \<Rightarrow> ('node, 'cat) kernel_call \<Rightarrow> nat \<Rightarrow> nat \<Rightarrow> nat \<Rightarrow> real" where
  "contribution ev a tree_index row_index class_index =
     (case vector_output_p a of
        Some vector_output \<Rightarrow>
          vector_output (tree_output_index ev a tree_index row_index * num_outputs a + class_index)
      | None \<Rightarrow>
          if tree_index mod num_outputs a = class_index
          then tree_output_leaf ev a tree_index row_index else 0)"

text \<open>
  A list of additions applied to a workspace, and a state advanced by a list of
  evaluations and a list of additions.
\<close>

definition apply_accumulations :: "real list \<Rightarrow> accumulation list \<Rightarrow> real list" where
  "apply_accumulations w es = foldl (\<lambda>w e. w[acc_cell e := w ! acc_cell e + acc_amount e]) w es"

definition advance ::
  "kernel_state \<Rightarrow> (nat \<times> nat) list \<Rightarrow> accumulation list \<Rightarrow> kernel_state" where
  "advance s evs accs =
     s\<lparr>output_workspace := apply_accumulations (output_workspace s) accs,
       evaluated := evaluated s @ evs,
       accumulated := accumulated s @ accs\<rparr>"










text \<open>
  The sum over all trees of what a tree adds to a class of a row, and the output
  buffer in which every row holds the postprocessed sums.
\<close>

definition raw_aggregate ::
  "('node, 'cat) collaborators \<Rightarrow> ('node, 'cat) kernel_call \<Rightarrow> nat \<Rightarrow> nat \<Rightarrow> real" where
  "raw_aggregate ev a row_index class_index =
     (\<Sum>t\<leftarrow>[0..<length (forest a)]. contribution ev a t row_index class_index)"

definition reference_output ::
  "('node, 'cat) collaborators \<Rightarrow> ('node, 'cat) kernel_call \<Rightarrow> io_pointer" where
  "reference_output ev a =
     (\<lambda>i. if i < row_count a * num_outputs a
          then postproc a
            (map (raw_aggregate ev a (i div num_outputs a)) [0..<num_outputs a])
            (i mod num_outputs a)
          else output a i)"


subsection \<open>An instance\<close>






subsection \<open>Auxiliary facts: folds, sums and cell indices\<close>






subsection \<open>The loop over the tasks in closed form\<close>

lemma concat_map_Nil [simp]: "concat (map (\<lambda>x. []) xs) = []"
  by (induction xs) simp_all


lemma length_apply_accumulations [simp]: "length (apply_accumulations w es) = length w"
  unfolding apply_accumulations_def by (induction es arbitrary: w) simp_all

lemma advance_Nil [simp]: "advance s [] [] = s"
  by (simp add: advance_def apply_accumulations_def)


lemma running_advance [simp]: "running a ng (advance s evs accs) = running a ng s"
  by (simp add: running_def advance_def)






subsection \<open>The workspace after the loop over the tasks\<close>












subsection \<open>The loop over the rows\<close>








subsection \<open>The result of a call that returns\<close>











lemma raw_aggregate_same_forest:
  assumes "forest a' = forest a" "num_outputs a' = num_outputs a"
    "vector_output_p a' = vector_output_p a" "categorical_data a' = categorical_data a"
    "has_categorical_nodes a' = has_categorical_nodes a" "input a' = input a"
    "col_count a' = col_count a"
  shows "raw_aggregate ev a' = raw_aggregate ev a"
proof (intro ext)
  fix r c
  show "raw_aggregate ev a' r c = raw_aggregate ev a r c"
    using assms
    by (simp add: raw_aggregate_def contribution_def tree_output_leaf_def tree_output_index_def
        cong: option.case_cong if_cong)
qed

lemma reference_output_partition [simp]:
  "reference_output ev (a\<lparr>chunk_size := cs, grove_size := gs\<rparr>) = reference_output ev a"
proof -
  have "raw_aggregate ev (a\<lparr>chunk_size := cs, grove_size := gs\<rparr>) = raw_aggregate ev a"
    by (rule raw_aggregate_same_forest) simp_all
  then show ?thesis
    by (simp add: reference_output_def cong: if_cong)
qed



subsection \<open>The additions to the workspace, one by one\<close>







subsection \<open>Calls that fail\<close>






















section \<open>The claims\<close>







text \<open>
  C4. Whatever the three run-time facts are (the flag \<open>has_categorical_nodes\<close>,
  \<open>vector_output\<close> null or not, \<open>categorical_data\<close> null or not), \<open>infer\<close> makes exactly
  one call of \<^verbatim>\<open>inference::infer\<close>: no combination is left without a specialization
  and none reaches two. The call forwards the device type and every argument, and
  its specialization is fixed by the three facts.
\<close>

theorem infer_selects_exactly_one:
  "\<exists>c. infer D f p outp inp rc cc oc hcn vo cd scs dev str = [c]
     \<and> c = Inference_infer D (call_has_categorical_nodes c) f p outp inp rc cc oc vo cd scs dev str
     \<and> specialization c = (hcn \<or> cd \<noteq> None, vo \<noteq> None, cd \<noteq> None)"
  by (simp add: infer_def specialization_def)











text \<open>
  C9. When \<open>categorical_data\<close> is not null, \<open>infer\<close> does not look at
  \<open>has_categorical_nodes\<close>: with vector output or without, the one call it makes is
  the specialization compiled with categorical-node support, also when the flag is
  false.
\<close>

theorem infer_categorical_data_ignores_flag:
  "infer D f p outp inp rc cc oc hcn vo (Some cd) scs dev str
     = [Inference_infer D True f p outp inp rc cc oc vo (Some cd) scs dev str]"
  by (cases vo) (simp_all add: infer_def)



end
